theory Spec2Isabelle
  imports Main "HOL-Library.Word"
begin

unbundle bit_operations_syntax

section \<open>Python values\<close>

text \<open>
  A Python \<^verbatim>\<open>str\<close> is a sequence of Unicode code points, so it is modelled as a list of
  natural numbers. \<open>asc\<close> embeds an ASCII literal of the source.
\<close>

type_synonym pystr = "nat list"

definition asc :: "string \<Rightarrow> pystr" where
  "asc s = map of_char s"

text \<open>
  The value \<^verbatim>\<open>request.get_json()\<close> returns. A JSON number is a Python \<^verbatim>\<open>int\<close>
  (unbounded) or a \<^verbatim>\<open>float\<close> (kept as its 64 bits); an object is a \<^verbatim>\<open>dict\<close>, kept as
  an association list in which the first binding of a key is the one \<open>dict_get\<close> finds.
\<close>

datatype json =
    JNull
  | JBool bool
  | JInt int
  | JFloat "64 word"
  | JStr pystr
  | JArr "json list"
  | JObj "(pystr \<times> json) list"

datatype error =
    BadRequest       \<comment> \<open>\<^verbatim>\<open>request.get_json()\<close> raised: the body is not JSON\<close>
  | AttributeError   \<comment> \<open>\<^verbatim>\<open>data.get\<close> on a body that is not a dict\<close>
  | TypeError        \<comment> \<open>\<^verbatim>\<open>x in d\<close> or \<^verbatim>\<open>d[x]\<close> with an unhashable \<^verbatim>\<open>x\<close>\<close>
  | KeyError         \<comment> \<open>\<^verbatim>\<open>d[x]\<close> with \<^verbatim>\<open>x\<close> not a key\<close>
  | ProviderError    \<comment> \<open>the completion call raised\<close>

text \<open>\<^verbatim>\<open>d.get(k, default)\<close>\<close>

definition dict_get :: "(pystr \<times> json) list \<Rightarrow> pystr \<Rightarrow> json \<Rightarrow> json" where
  "dict_get d k dflt = (case map_of d k of None \<Rightarrow> dflt | Some v \<Rightarrow> v)"

text \<open>Truth value of a Python object, as \<^verbatim>\<open>if x\<close> and \<^verbatim>\<open>x and y\<close> test it.\<close>

fun truthy :: "json \<Rightarrow> bool" where
  "truthy JNull = False"
| "truthy (JBool b) = b"
| "truthy (JInt i) = (i \<noteq> 0)"
| "truthy (JFloat w) = (take_bit 63 w \<noteq> 0)"
| "truthy (JStr s) = (s \<noteq> [])"
| "truthy (JArr xs) = (xs \<noteq> [])"
| "truthy (JObj kvs) = (kvs \<noteq> [])"

text \<open>A list and a dict have no hash; every other JSON value has one.\<close>

fun hashable :: "json \<Rightarrow> bool" where
  "hashable (JArr xs) = False"
| "hashable (JObj kvs) = False"
| "hashable v = True"

text \<open>
  \<^verbatim>\<open>x in d\<close> for a dict \<open>d\<close> whose keys are strings: an unhashable \<open>x\<close> raises
  \<^verbatim>\<open>TypeError\<close>; a hashable value that is not a string equals no key.
\<close>

fun py_in :: "json \<Rightarrow> (pystr \<rightharpoonup> 'a) \<Rightarrow> error + bool" where
  "py_in (JStr s) m = Inr (m s \<noteq> None)"
| "py_in v m = (if hashable v then Inr False else Inl TypeError)"

text \<open>\<^verbatim>\<open>str(n)\<close> for an integer: decimal digits, a minus sign when negative.\<close>

fun py_str_nat :: "nat \<Rightarrow> pystr" where
  "py_str_nat n = (if n < 10 then [48 + n] else py_str_nat (n div 10) @ [48 + n mod 10])"

declare py_str_nat.simps [simp del]

definition py_str_int :: "int \<Rightarrow> pystr" where
  "py_str_int i = (if i < 0 then 45 # py_str_nat (nat (- i)) else py_str_nat (nat i))"

text \<open>
  What an f-string puts in place of \<^verbatim>\<open>{x}\<close>, that is \<^verbatim>\<open>str(x)\<close>. Python's text
  for a float, a list and a dict is Python's \<^verbatim>\<open>repr\<close>, which is not code of this
  program: it is the parameter \<open>repr\<close>.
\<close>

fun py_str :: "(json \<Rightarrow> pystr) \<Rightarrow> json \<Rightarrow> pystr" where
  "py_str repr JNull = asc ''None''"
| "py_str repr (JBool b) = (if b then asc ''True'' else asc ''False'')"
| "py_str repr (JInt i) = py_str_int i"
| "py_str repr (JStr s) = s"
| "py_str repr v = repr v"

text \<open>
  \<^verbatim>\<open>s.strip()\<close> removes leading and trailing whitespace; \<open>py_isspace\<close> lists the code
  points for which \<^verbatim>\<open>str.isspace\<close> holds.
\<close>

definition py_isspace :: "nat \<Rightarrow> bool" where
  "py_isspace c \<longleftrightarrow>
     (9 \<le> c \<and> c \<le> 13) \<or> (28 \<le> c \<and> c \<le> 32) \<or> c = 0x85 \<or> c = 0xA0 \<or> c = 0x1680 \<or>
     (0x2000 \<le> c \<and> c \<le> 0x200A) \<or> c = 0x2028 \<or> c = 0x2029 \<or> c = 0x202F \<or>
     c = 0x205F \<or> c = 0x3000"

definition py_strip :: "pystr \<Rightarrow> pystr" where
  "py_strip s = rev (dropWhile py_isspace (rev (dropWhile py_isspace s)))"

text \<open>
  \<^verbatim>\<open>str(uuid4())\<close>: the 128-bit value \<open>u\<close> that \<^verbatim>\<open>uuid4()\<close> drew, as 32 lowercase
  hexadecimal digits in groups of 8, 4, 4, 4 and 12 joined by hyphens.
\<close>

definition hexdigit :: "nat \<Rightarrow> nat" where
  "hexdigit d = (if d < 10 then 48 + d else 87 + d)"

fun hex_pad :: "nat \<Rightarrow> nat \<Rightarrow> pystr" where
  "hex_pad 0 n = []"
| "hex_pad (Suc k) n = hex_pad k (n div 16) @ [hexdigit (n mod 16)]"

definition uuid_str :: "128 word \<Rightarrow> pystr" where
  "uuid_str u =
     (let h = hex_pad 32 (unat u)
      in take 8 h @ [45] @ take 4 (drop 8 h) @ [45] @ take 4 (drop 12 h) @ [45] @
         take 4 (drop 16 h) @ [45] @ drop 20 h)"

section \<open>The in-memory store\<close>

text \<open>
  \<^verbatim>\<open>projects = []\<close> holds dicts \<^verbatim>\<open>{id, name}\<close>; \<^verbatim>\<open>project_messages = {}\<close> maps a
  project id to its list of dicts \<^verbatim>\<open>{role, content}\<close>. A name and a content are whatever
  JSON value the request carried.
\<close>

record project =
  proj_id :: pystr
  proj_name :: json

record message =
  role :: pystr
  content :: json

record store =
  projects :: "project list"
  project_messages :: "pystr \<rightharpoonup> message list"

definition init_store :: store where
  "init_store = \<lparr>projects = [], project_messages = Map.empty\<rparr>"

text \<open>What \<^verbatim>\<open>jsonify\<close> is given.\<close>

definition project_json :: "project \<Rightarrow> json" where
  "project_json p = JObj [(asc ''id'', JStr (proj_id p)), (asc ''name'', proj_name p)]"

definition message_json :: "message \<Rightarrow> json" where
  "message_json m = JObj [(asc ''role'', JStr (role m)), (asc ''content'', content m)]"

section \<open>Prompt templates\<close>

text \<open>
  Each f-string of the source, with the text of its slots as arguments. A triple-quoted
  literal starts with the line break after the opening quotes; \<open>[10]\<close> is a line break.
\<close>

definition format_prompt :: "pystr \<Rightarrow> pystr" where
  "format_prompt raw_update = concat
    [[10],
     asc ''You are a Project Management Assistant. Reformat the following update into 5 structured sections:'', [10],
     [0x2705], asc '' Current Phase'', [10],
     [0x1F51C], asc '' Next Stage'', [10],
     [0x26D4], asc '' Blockers'', [10],
     [0x1F6E0], asc '' Actions Required'', [10],
     [0x1F4C5], asc '' Timeline or Deadline'', [10],
     [10],
     asc ''For each section:'', [10],
     asc ''- Use bullet points for each item.'', [10],
     asc ''- Highlight key points using bold text or emojis.'', [10],
     asc ''- Make the update easy to read and visually clear.'', [10],
     [10],
     asc ''---'', [10],
     asc ''Update: '', raw_update, [10]]"

definition summary_prompt :: "pystr \<Rightarrow> pystr" where
  "summary_prompt raw_notes = concat
    [[10],
     asc ''Act as a professional project manager. Given the following project notes, summarize the current project status clearly and concisely for stakeholders. Include:'', [10],
     asc ''- Project progress'', [10],
     asc ''- Current blockers'', [10],
     asc ''- Next steps'', [10],
     asc ''- Timeline and any deadlines'', [10],
     [10],
     asc ''Use clear bullet points and structure.'', [10],
     [10],
     asc ''---'', [10],
     asc ''Notes: '', raw_notes, [10]]"

definition action_items_prompt :: "pystr \<Rightarrow> pystr \<Rightarrow> pystr" where
  "action_items_prompt project_name updates = concat
    [[10],
     asc ''Extract all specific action items from the following project updates. For each action item, write a single, clear sentence starting with a numbered markdown bullet (e.g., 1.), then the action title in bold (using markdown, e.g., **Title**), followed by a colon and a concise description. Keep each action item to a maximum of 1-2 lines. List each action item on a new line as a separate numbered bullet. Do not use JSON or field labels. Only return the list of action items. If there are no specific action items, reply with: No specific action items found in the provided updates.'', [10],
     [10],
     asc ''Example:'', [10],
     asc ''1. **Finalize Vendor Selection**: Follow up with Finance to review the latest proposal for the reporting module.'', [10],
     asc ''2. **Resolve Merge Conflict**: Dev team to address the merge conflict in the notification service update.'', [10],
     asc ''3. **Test User Role Flow Changes**: QA to test the user role flow changes once staging env stabilizes.'', [10],
     [10],
     asc ''---'', [10],
     asc ''Project: '', project_name, [10],
     asc ''Updates: '', updates, [10]]"

definition sentiment_prompt :: "pystr \<Rightarrow> pystr \<Rightarrow> pystr" where
  "sentiment_prompt project_name updates = concat
    [[10],
     asc ''Analyze the overall sentiment of the following project updates. Respond in the following format:'', [10],
     [10],
     asc ''AI'', [10],
     asc ''Overall sentiment: <Positive/Neutral/Negative>'', [10],
     [10],
     asc ''Explanation: <A brief explanation of the tone and key points in the updates.>'', [10],
     [10],
     asc ''---'', [10],
     asc ''Project: '', project_name, [10],
     asc ''Updates: '', updates, [10]]"

definition email_prompt :: "pystr \<Rightarrow> pystr \<Rightarrow> pystr \<Rightarrow> pystr" where
  "email_prompt sentiment project_name updates = concat
    [[10],
     asc ''Write a professional project update email for the following project. Use the sentiment: '', sentiment, asc ''.'', [10],
     [10],
     asc ''---'', [10],
     asc ''Project: '', project_name, [10],
     asc ''Updates: '', updates, [10]]"

section \<open>The completion gateway\<close>

text \<open>
  \<^verbatim>\<open>openai.chat.completions.create(model=..., messages=[system, user])\<close> followed by
  \<^verbatim>\<open>response.choices[0].message.content\<close>. The provider is outside the program: a
  gateway is a parameter that, given the model name, the system text and the user text,
  returns the generated text, or fails when the call raises or the response has no choice.
\<close>

type_synonym gateway = "pystr \<Rightarrow> pystr \<Rightarrow> pystr \<Rightarrow> error + pystr"

section \<open>Request handlers\<close>

text \<open>
  A handler takes the store and the request and returns the response, or the exception
  that ended it, together with the store it leaves. The body is \<open>None\<close> when
  \<^verbatim>\<open>request.get_json()\<close> raises; \<^verbatim>\<open>data.get\<close> exists only when the body is a dict.
  The \<^verbatim>\<open>logging.info\<close> calls write to the log only and are left out.
\<close>

fun request_dict :: "json option \<Rightarrow> error + (pystr \<times> json) list" where
  "request_dict None = Inl BadRequest"
| "request_dict (Some (JObj d)) = Inr d"
| "request_dict (Some v) = Inl AttributeError"

definition get_projects :: "store \<Rightarrow> (error + json) \<times> store" where
  "get_projects st = (Inr (JArr (map project_json (projects st))), st)"

definition create_project :: "128 word \<Rightarrow> store \<Rightarrow> json option \<Rightarrow> (error + json) \<times> store" where
  "create_project u st req =
     (case request_dict req of
        Inl e \<Rightarrow> (Inl e, st)
      | Inr data \<Rightarrow>
          (let name = dict_get data (asc ''name'')
                        (JStr (asc ''Project '' @ py_str_nat (length (projects st) + 1)));
               project_id = uuid_str u;
               project = \<lparr>proj_id = project_id, proj_name = name\<rparr>
           in (Inr (project_json project),
               st\<lparr>projects := projects st @ [project],
                  project_messages := (project_messages st)(project_id \<mapsto> [])\<rparr>)))"

definition get_project_messages :: "store \<Rightarrow> pystr \<Rightarrow> (error + json) \<times> store" where
  "get_project_messages st project_id =
     (Inr (JArr (map message_json
                   (case project_messages st project_id of None \<Rightarrow> [] | Some ms \<Rightarrow> ms))),
      st)"

text \<open>\<^verbatim>\<open>project_messages[project_id].append(m)\<close>\<close>

fun append_message :: "json \<Rightarrow> message \<Rightarrow> store \<Rightarrow> error + store" where
  "append_message (JStr pid) m st =
     (case project_messages st pid of
        None \<Rightarrow> Inl KeyError
      | Some ms \<Rightarrow> Inr (st\<lparr>project_messages := (project_messages st)(pid \<mapsto> ms @ [m])\<rparr>))"
| "append_message (JArr xs) m st = Inl TypeError"
| "append_message (JObj kvs) m st = Inl TypeError"
| "append_message v m st = Inl KeyError"

definition format_update ::
  "(json \<Rightarrow> pystr) \<Rightarrow> gateway \<Rightarrow> store \<Rightarrow> json option \<Rightarrow> (error + json) \<times> store" where
  "format_update repr gw st req =
     (case request_dict req of
        Inl e \<Rightarrow> (Inl e, st)
      | Inr data \<Rightarrow>
          (let raw_update = dict_get data (asc ''update'') JNull;
               project_id = dict_get data (asc ''project_id'') JNull;
               project_name = dict_get data (asc ''project_name'') (JStr []);
               prompt = format_prompt (py_str repr raw_update)
           in case gw (asc ''gpt-4'') (asc ''You are a helpful project assistant.'') prompt of
                Inl e \<Rightarrow> (Inl e, st)
              | Inr formatted \<Rightarrow>
                  (case (if truthy project_id then py_in project_id (project_messages st)
                         else Inr False) of
                     Inl e \<Rightarrow> (Inl e, st)
                   | Inr known \<Rightarrow>
                       if known then
                         (case append_message project_id
                                 \<lparr>role = asc ''user'', content = raw_update\<rparr> st of
                            Inl e \<Rightarrow> (Inl e, st)
                          | Inr st1 \<Rightarrow>
                              (case append_message project_id
                                      \<lparr>role = asc ''bot'', content = JStr formatted\<rparr> st1 of
                                 Inl e \<Rightarrow> (Inl e, st1)
                               | Inr st2 \<Rightarrow>
                                   (Inr (JObj [(asc ''formatted'', JStr formatted)]), st2)))
                       else (Inr (JObj [(asc ''formatted'', JStr formatted)]), st))))"

definition summarize_project ::
  "(json \<Rightarrow> pystr) \<Rightarrow> gateway \<Rightarrow> store \<Rightarrow> json option \<Rightarrow> (error + json) \<times> store" where
  "summarize_project repr gw st req =
     (case request_dict req of
        Inl e \<Rightarrow> (Inl e, st)
      | Inr data \<Rightarrow>
          (let raw_notes = dict_get data (asc ''update'') JNull;
               project_id = dict_get data (asc ''project_id'') JNull;
               project_name = dict_get data (asc ''project_name'') (JStr []);
               prompt = summary_prompt (py_str repr raw_notes)
           in case gw (asc ''gpt-4'') (asc ''You are a senior project manager assistant.'') prompt of
                Inl e \<Rightarrow> (Inl e, st)
              | Inr summary \<Rightarrow> (Inr (JObj [(asc ''summary'', JStr summary)]), st)))"

definition extract_action_items ::
  "(json \<Rightarrow> pystr) \<Rightarrow> gateway \<Rightarrow> store \<Rightarrow> json option \<Rightarrow> (error + json) \<times> store" where
  "extract_action_items repr gw st req =
     (case request_dict req of
        Inl e \<Rightarrow> (Inl e, st)
      | Inr data \<Rightarrow>
          (let updates = dict_get data (asc ''update'') JNull;
               project_id = dict_get data (asc ''project_id'') JNull;
               project_name = dict_get data (asc ''project_name'') (JStr []);
               prompt = action_items_prompt (py_str repr project_name) (py_str repr updates)
           in case gw (asc ''gpt-4'')
                     (asc ''You are a project management AI that extracts action items as a concise numbered markdown list with bolded titles.'')
                     prompt of
                Inl e \<Rightarrow> (Inl e, st)
              | Inr text \<Rightarrow>
                  (let action_items = py_strip text
                   in (Inr (JObj [(asc ''action_items'', JStr action_items)]), st))))"

definition analyze_sentiment ::
  "(json \<Rightarrow> pystr) \<Rightarrow> gateway \<Rightarrow> store \<Rightarrow> json option \<Rightarrow> (error + json) \<times> store" where
  "analyze_sentiment repr gw st req =
     (case request_dict req of
        Inl e \<Rightarrow> (Inl e, st)
      | Inr data \<Rightarrow>
          (let updates = dict_get data (asc ''update'') JNull;
               project_id = dict_get data (asc ''project_id'') JNull;
               project_name = dict_get data (asc ''project_name'') (JStr []);
               prompt = sentiment_prompt (py_str repr project_name) (py_str repr updates)
           in case gw (asc ''gpt-4'') (asc ''You are a sentiment analysis AI.'') prompt of
                Inl e \<Rightarrow> (Inl e, st)
              | Inr text \<Rightarrow>
                  (let sentiment = py_strip text
                   in (Inr (JObj [(asc ''sentiment'', JStr sentiment)]), st))))"

definition generate_email ::
  "(json \<Rightarrow> pystr) \<Rightarrow> gateway \<Rightarrow> store \<Rightarrow> json option \<Rightarrow> (error + json) \<times> store" where
  "generate_email repr gw st req =
     (case request_dict req of
        Inl e \<Rightarrow> (Inl e, st)
      | Inr data \<Rightarrow>
          (let updates = dict_get data (asc ''update'') JNull;
               project_id = dict_get data (asc ''project_id'') JNull;
               project_name = dict_get data (asc ''project_name'') (JStr []);
               sentiment = dict_get data (asc ''sentiment'') (JStr []);
               prompt = email_prompt (py_str repr sentiment) (py_str repr project_name)
                          (py_str repr updates)
           in case gw (asc ''gpt-4'')
                     (asc ''You are an expert project manager and email writer.'') prompt of
                Inl e \<Rightarrow> (Inl e, st)
              | Inr email \<Rightarrow> (Inr (JObj [(asc ''email'', JStr email)]), st)))"

definition create_checkout_session :: "store \<Rightarrow> (error + json) \<times> store" where
  "create_checkout_session st =
     (Inr (JObj [(asc ''url'', JStr (asc ''https://example.com/checkout''))]), st)"

section \<open>Sequences of requests\<close>

text \<open>
  One request to one route. A request that reaches the provider carries the gateway that
  answers it; a creation carries the value \<^verbatim>\<open>uuid4()\<close> draws for it.
\<close>

datatype request =
    GetProjects
  | CreateProject "128 word" "json option"
  | GetProjectMessages pystr
  | FormatUpdate gateway "json option"
  | SummarizeProject gateway "json option"
  | ExtractActionItems gateway "json option"
  | AnalyzeSentiment gateway "json option"
  | GenerateEmail gateway "json option"
  | CreateCheckoutSession

fun handle :: "(json \<Rightarrow> pystr) \<Rightarrow> store \<Rightarrow> request \<Rightarrow> (error + json) \<times> store" where
  "handle repr st GetProjects = get_projects st"
| "handle repr st (CreateProject u req) = create_project u st req"
| "handle repr st (GetProjectMessages project_id) = get_project_messages st project_id"
| "handle repr st (FormatUpdate gw req) = format_update repr gw st req"
| "handle repr st (SummarizeProject gw req) = summarize_project repr gw st req"
| "handle repr st (ExtractActionItems gw req) = extract_action_items repr gw st req"
| "handle repr st (AnalyzeSentiment gw req) = analyze_sentiment repr gw st req"
| "handle repr st (GenerateEmail gw req) = generate_email repr gw st req"
| "handle repr st CreateCheckoutSession = create_checkout_session st"

text \<open>The store after a sequence of requests served one after the other.\<close>

fun run :: "(json \<Rightarrow> pystr) \<Rightarrow> store \<Rightarrow> request list \<Rightarrow> store" where
  "run repr st [] = st"
| "run repr st (r # rs) = run repr (snd (handle repr st r)) rs"

text \<open>
  A creation is a request to create a project whose body is a JSON object. \<open>draws\<close>
  lists the values \<^verbatim>\<open>uuid4()\<close> drew for the creations of a sequence, \<open>creations\<close>
  counts them.
\<close>

fun draws :: "request list \<Rightarrow> 128 word list" where
  "draws [] = []"
| "draws (CreateProject u (Some (JObj d)) # rs) = u # draws rs"
| "draws (r # rs) = draws rs"

definition creations :: "request list \<Rightarrow> nat" where
  "creations rs = length (draws rs)"

section \<open>Stand-ins for the environment at concrete inputs\<close>

text \<open>
  A \<^verbatim>\<open>repr\<close> that prints nothing, a provider that answers every call with the same
  text, and a provider that answers with the user text it was sent.
\<close>

definition no_repr :: "json \<Rightarrow> pystr" where
  "no_repr v = []"

definition const_gateway :: "pystr \<Rightarrow> gateway" where
  "const_gateway t m s p = Inr t"

definition echo_gateway :: gateway where
  "echo_gateway m s p = Inr p"

definition failing_gateway :: gateway where
  "failing_gateway m s p = Inl ProviderError"

section \<open>Project identifiers\<close>

text \<open>The text of a UUID determines its value, and is never the empty string.\<close>

lemma length_hex_pad: "length (hex_pad k n) = k"
  by (induction k arbitrary: n) auto

lemma hexdigit_inj: "a < 16 \<Longrightarrow> b < 16 \<Longrightarrow> hexdigit a = hexdigit b \<Longrightarrow> a = b"
  by (auto simp: hexdigit_def split: if_splits)

lemma hex_pad_inj: "m < 16 ^ k \<Longrightarrow> n < 16 ^ k \<Longrightarrow> hex_pad k m = hex_pad k n \<Longrightarrow> m = n"
proof (induction k arbitrary: m n)
  case 0
  then show ?case by simp
next
  case (Suc k)
  from Suc.prems(3) have eq: "hex_pad k (m div 16) = hex_pad k (n div 16)"
    and dg: "hexdigit (m mod 16) = hexdigit (n mod 16)"
    by (simp_all add: length_hex_pad)
  from Suc.prems(1) have "m < 16 ^ k * 16" by simp
  then have "m div 16 < 16 ^ k" by (rule less_mult_imp_div_less)
  moreover from Suc.prems(2) have "n < 16 ^ k * 16" by simp
  then have "n div 16 < 16 ^ k" by (rule less_mult_imp_div_less)
  ultimately have "m div 16 < 16 ^ k" "n div 16 < 16 ^ k" by blast+
  then have q: "m div 16 = n div 16" using eq by (rule Suc.IH)
  have r: "m mod 16 = n mod 16" by (rule hexdigit_inj [OF _ _ dg]) simp_all
  have "m = 16 * (m div 16) + m mod 16" by simp
  also have "\<dots> = 16 * (n div 16) + n mod 16" by (simp only: q r)
  also have "\<dots> = n" by simp
  finally show ?case .
qed

lemma split_groups:
  "take 8 h @ take 4 (drop 8 h) @ take 4 (drop 12 h) @ take 4 (drop 16 h) @ drop 20 h = h"
proof -
  have a: "take 4 (drop 16 h) @ drop 20 h = drop 16 h"
    using append_take_drop_id [of 4 "drop 16 h"] by simp
  have b: "take 4 (drop 12 h) @ drop 16 h = drop 12 h"
    using append_take_drop_id [of 4 "drop 12 h"] by simp
  have c: "take 4 (drop 8 h) @ drop 12 h = drop 8 h"
    using append_take_drop_id [of 4 "drop 8 h"] by simp
  show ?thesis by (simp add: a b c)
qed

lemma uuid_str_inj: assumes "uuid_str u = uuid_str v" shows "u = v"
proof -
  define h where "h = hex_pad 32 (unat u)"
  define g where "g = hex_pad 32 (unat v)"
  have lh: "length h = 32" and lg: "length g = 32"
    by (simp_all add: h_def g_def length_hex_pad)
  from assms have "take 8 h @ [45] @ take 4 (drop 8 h) @ [45] @ take 4 (drop 12 h) @ [45] @
         take 4 (drop 16 h) @ [45] @ drop 20 h =
       take 8 g @ [45] @ take 4 (drop 8 g) @ [45] @ take 4 (drop 12 g) @ [45] @
         take 4 (drop 16 g) @ [45] @ drop 20 g"
    by (simp add: uuid_str_def h_def g_def Let_def)
  then have p: "take 8 h = take 8 g" "take 4 (drop 8 h) = take 4 (drop 8 g)"
    "take 4 (drop 12 h) = take 4 (drop 12 g)" "take 4 (drop 16 h) = take 4 (drop 16 g)"
    "drop 20 h = drop 20 g"
    using lh lg by simp_all
  have "h = take 8 h @ take 4 (drop 8 h) @ take 4 (drop 12 h) @ take 4 (drop 16 h) @ drop 20 h"
    by (simp only: split_groups)
  also have "\<dots> = take 8 g @ take 4 (drop 8 g) @ take 4 (drop 12 g) @ take 4 (drop 16 g) @ drop 20 g"
    by (simp only: p)
  also have "\<dots> = g" by (simp only: split_groups)
  finally have "hex_pad 32 (unat u) = hex_pad 32 (unat v)" by (simp add: h_def g_def)
  moreover have "unat u < 16 ^ 32" "unat v < 16 ^ 32"
    using unsigned_less [of u, where 'a = nat] unsigned_less [of v, where 'a = nat] by simp_all
  ultimately have "unat u = unat v" by (rule hex_pad_inj [rotated 2])
  then show ?thesis by (rule word_unat_eq_iff [THEN iffD2])
qed

lemma uuid_str_nonempty: "uuid_str u \<noteq> []"
  by (simp add: uuid_str_def Let_def)

section \<open>What a request changes in the store\<close>

text \<open>
  Only a creation adds a project or a key of the message mapping, and it adds both, under
  the text of the value drawn for it.
\<close>

lemma append_message_frame:
  "append_message v m st = Inr st' \<Longrightarrow>
     projects st' = projects st \<and> dom (project_messages st') = dom (project_messages st)"
  by (cases v) (auto split: option.splits if_splits)

lemma format_update_frame:
  "projects (snd (format_update repr gw st req)) = projects st \<and>
   dom (project_messages (snd (format_update repr gw st req))) = dom (project_messages st)"
proof -
  have two: "projects st2 = projects st \<and> dom (project_messages st2) = dom (project_messages st)"
    if "append_message v m1 st = Inr st1" and "append_message v m2 st1 = Inr st2"
    for v m1 m2 st1 st2
    using append_message_frame [OF that(1)] append_message_frame [OF that(2)] by simp
  show ?thesis
    by (auto simp: format_update_def Let_def two append_message_frame split: sum.splits)
qed

lemma text_handlers_frame:
  "snd (summarize_project repr gw st req) = st"
  "snd (extract_action_items repr gw st req) = st"
  "snd (analyze_sentiment repr gw st req) = st"
  "snd (generate_email repr gw st req) = st"
  by (simp_all add: summarize_project_def extract_action_items_def analyze_sentiment_def
        generate_email_def Let_def split: sum.splits)

lemma create_project_frame:
  "map proj_id (projects (snd (create_project u st req))) =
     map proj_id (projects st) @ map uuid_str (draws [CreateProject u req]) \<and>
   dom (project_messages (snd (create_project u st req))) =
     dom (project_messages st) \<union> uuid_str ` set (draws [CreateProject u req])"
proof (cases req)
  case None
  then show ?thesis by (simp add: create_project_def)
next
  case (Some v)
  then show ?thesis by (cases v) (simp_all add: create_project_def Let_def)
qed

lemma handle_frame:
  "map proj_id (projects (snd (handle repr st r))) =
     map proj_id (projects st) @ map uuid_str (draws [r]) \<and>
   dom (project_messages (snd (handle repr st r))) =
     dom (project_messages st) \<union> uuid_str ` set (draws [r])"
  by (cases r)
     (simp_all add: create_project_frame format_update_frame text_handlers_frame
        get_projects_def get_project_messages_def create_checkout_session_def)

lemma draws_Cons: "draws (r # rs) = draws [r] @ draws rs"
  by (cases "r # rs" rule: draws.cases) auto

lemma run_frame:
  "map proj_id (projects (run repr st rs)) = map proj_id (projects st) @ map uuid_str (draws rs) \<and>
   dom (project_messages (run repr st rs)) = dom (project_messages st) \<union> uuid_str ` set (draws rs)"
proof (induction rs arbitrary: st)
  case Nil
  then show ?case by simp
next
  case (Cons r rs)
  show ?case
    using Cons.IH [of "snd (handle repr st r)"] handle_frame [of repr st r] draws_Cons [of r rs]
    by (simp add: image_Un Un_assoc)
qed

lemma run_init_ids: "map proj_id (projects (run repr init_store rs)) = map uuid_str (draws rs)"
  using run_frame [of repr init_store rs] by (simp add: init_store_def)

lemma run_init_dom: "dom (project_messages (run repr init_store rs)) = uuid_str ` set (draws rs)"
  using run_frame [of repr init_store rs] by (simp add: init_store_def)

lemma run_init_length: "length (projects (run repr init_store rs)) = creations rs"
  using arg_cong [OF run_init_ids [of repr rs], of length] by (simp add: creations_def)

section \<open>Claims\<close>

text \<open>
  C2. When the completion gateway fails on a request to the format operation, the handler
  ends with that failure and the store is exactly the store before the request: nothing is
  appended.
\<close>

theorem format_gateway_failure_keeps_store:
  assumes "gw (asc ''gpt-4'') (asc ''You are a helpful project assistant.'')
             (format_prompt (py_str repr (dict_get d (asc ''update'') JNull))) = Inl e"
  shows "format_update repr gw st (Some (JObj d)) = (Inl e, st)"
  using assms by (simp add: format_update_def Let_def)

theorem format_gateway_failure_keeps_store_witness:
  "format_update no_repr failing_gateway init_store
     (Some (JObj [(asc ''update'', JStr (asc ''x''))])) = (Inl ProviderError, init_store)"
  using format_gateway_failure_keeps_store
          [of failing_gateway no_repr "[(asc ''update'', JStr (asc ''x''))]" ProviderError init_store]
  by (simp add: failing_gateway_def)

text \<open>
  C5. In every state reached from the empty store by a sequence of requests, every key of
  the message mapping is the id of a project of the project sequence.
\<close>

theorem message_keys_have_projects:
  "\<forall>k \<in> dom (project_messages (run repr init_store rs)).
     \<exists>p \<in> set (projects (run repr init_store rs)). proj_id p = k"
proof
  fix k
  assume "k \<in> dom (project_messages (run repr init_store rs))"
  then have "k \<in> set (map uuid_str (draws rs))"
    by (simp add: run_init_dom)
  then have "k \<in> set (map proj_id (projects (run repr init_store rs)))"
    by (simp only: run_init_ids)
  then show "\<exists>p \<in> set (projects (run repr init_store rs)). proj_id p = k"
    by auto
qed

theorem message_keys_have_projects_witness:
  "uuid_str 7 \<in> dom (project_messages (run no_repr init_store [CreateProject 7 (Some (JObj []))])) \<and>
   (\<exists>p \<in> set (projects (run no_repr init_store [CreateProject 7 (Some (JObj []))])).
      proj_id p = uuid_str 7)"
  using message_keys_have_projects [of no_repr "[CreateProject 7 (Some (JObj []))]"]
  by (simp add: create_project_def Let_def)

text \<open>
  C7. A request to summarize, action items, sentiment or generate email leaves the store
  as it was, whatever the body, the project id in it and the answer of the gateway: the
  project sequence and every message sequence are unchanged.
\<close>

theorem text_handlers_keep_store:
  "snd (summarize_project repr gw st req) = st \<and>
   snd (extract_action_items repr gw st req) = st \<and>
   snd (analyze_sentiment repr gw st req) = st \<and>
   snd (generate_email repr gw st req) = st"
  by (simp add: summarize_project_def extract_action_items_def analyze_sentiment_def
        generate_email_def Let_def split: sum.splits)

text \<open>
  C8. Listing the messages of an id that is not a key of the message mapping succeeds with
  the empty sequence; for a key it returns the sequence stored under it. The store is
  unchanged.
\<close>

theorem get_project_messages_unknown_or_known:
  "(project_messages st project_id = None \<longrightarrow>
      get_project_messages st project_id = (Inr (JArr []), st)) \<and>
   (\<forall>ms. project_messages st project_id = Some ms \<longrightarrow>
      get_project_messages st project_id = (Inr (JArr (map message_json ms)), st))"
  by (simp add: get_project_messages_def)

theorem get_project_messages_unknown_or_known_witness:
  "get_project_messages init_store (asc ''nobody'') = (Inr (JArr []), init_store) \<and>
   get_project_messages
     \<lparr>projects = [\<lparr>proj_id = asc ''p1'', proj_name = JNull\<rparr>],
      project_messages = [asc ''p1'' \<mapsto> [\<lparr>role = asc ''user'', content = JStr (asc ''hi'')\<rparr>]]\<rparr>
     (asc ''p1'') =
   (Inr (JArr [JObj [(asc ''role'', JStr (asc ''user'')), (asc ''content'', JStr (asc ''hi''))]]),
    \<lparr>projects = [\<lparr>proj_id = asc ''p1'', proj_name = JNull\<rparr>],
     project_messages = [asc ''p1'' \<mapsto> [\<lparr>role = asc ''user'', content = JStr (asc ''hi'')\<rparr>]]\<rparr>)"
  using get_project_messages_unknown_or_known [of init_store "asc ''nobody''"]
    get_project_messages_unknown_or_known
      [of "\<lparr>projects = [\<lparr>proj_id = asc ''p1'', proj_name = JNull\<rparr>],
            project_messages = [asc ''p1'' \<mapsto> [\<lparr>role = asc ''user'', content = JStr (asc ''hi'')\<rparr>]]\<rparr>"
          "asc ''p1''"]
  by (simp add: init_store_def message_json_def)

text \<open>
  C1. In a state reached from the empty store, a call to the format operation whose project
  id is a key of the message mapping and whose gateway call returns text answers with that
  text and appends exactly two entries to that project's sequence, in order: one with role
  user whose content is the update of the request, then one with role bot whose content is
  the text returned. No other sequence and no project changes.
\<close>

theorem format_appends_user_then_bot:
  assumes reach: "st = run repr init_store rs"
    and pid: "map_of d (asc ''project_id'') = Some (JStr pid)"
    and known: "project_messages st pid = Some ms"
    and ok: "gw (asc ''gpt-4'') (asc ''You are a helpful project assistant.'')
               (format_prompt (py_str repr (dict_get d (asc ''update'') JNull))) = Inr formatted"
  shows "fst (format_update repr gw st (Some (JObj d))) =
           Inr (JObj [(asc ''formatted'', JStr formatted)]) \<and>
         project_messages (snd (format_update repr gw st (Some (JObj d)))) pid =
           Some (ms @ [\<lparr>role = asc ''user'', content = dict_get d (asc ''update'') JNull\<rparr>,
                       \<lparr>role = asc ''bot'', content = JStr formatted\<rparr>]) \<and>
         (\<forall>k. k \<noteq> pid \<longrightarrow>
            project_messages (snd (format_update repr gw st (Some (JObj d)))) k =
              project_messages st k) \<and>
         projects (snd (format_update repr gw st (Some (JObj d)))) = projects st"
proof -
  from known have "pid \<in> dom (project_messages (run repr init_store rs))"
    by (auto simp: reach)
  then have "pid \<in> uuid_str ` set (draws rs)"
    by (simp only: run_init_dom)
  then have ne: "pid \<noteq> []"
    by (auto simp: uuid_str_nonempty)
  from pid have get: "dict_get d (asc ''project_id'') JNull = JStr pid"
    by (simp add: dict_get_def)
  show ?thesis
    using ok known ne by (simp add: format_update_def Let_def get)
qed

theorem format_appends_user_then_bot_witness:
  "fst (format_update no_repr (const_gateway (asc ''ok''))
          (run no_repr init_store [CreateProject 7 (Some (JObj []))])
          (Some (JObj [(asc ''update'', JStr (asc ''x'')),
                       (asc ''project_id'', JStr (uuid_str 7))]))) =
     Inr (JObj [(asc ''formatted'', JStr (asc ''ok''))]) \<and>
   project_messages
     (snd (format_update no_repr (const_gateway (asc ''ok''))
             (run no_repr init_store [CreateProject 7 (Some (JObj []))])
             (Some (JObj [(asc ''update'', JStr (asc ''x'')),
                          (asc ''project_id'', JStr (uuid_str 7))]))))
     (uuid_str 7) =
     Some [\<lparr>role = asc ''user'', content = JStr (asc ''x'')\<rparr>,
           \<lparr>role = asc ''bot'', content = JStr (asc ''ok'')\<rparr>]"
proof -
  have h1: "map_of [(asc ''update'', JStr (asc ''x'')), (asc ''project_id'', JStr (uuid_str 7))]
              (asc ''project_id'') = Some (JStr (uuid_str 7))"
    by (simp add: asc_def)
  have h2: "project_messages (run no_repr init_store [CreateProject 7 (Some (JObj []))])
              (uuid_str 7) = Some []"
    by (simp add: create_project_def Let_def)
  have h3: "const_gateway (asc ''ok'') (asc ''gpt-4'') (asc ''You are a helpful project assistant.'')
              (format_prompt (py_str no_repr
                 (dict_get [(asc ''update'', JStr (asc ''x'')),
                            (asc ''project_id'', JStr (uuid_str 7))] (asc ''update'') JNull))) =
            Inr (asc ''ok'')"
    by (simp add: const_gateway_def)
  have h4: "dict_get [(asc ''update'', JStr (asc ''x'')), (asc ''project_id'', JStr (uuid_str 7))]
              (asc ''update'') JNull = JStr (asc ''x'')"
    by (simp add: dict_get_def)
  show ?thesis
    using format_appends_user_then_bot
            [where gw = "const_gateway (asc ''ok'')" and repr = no_repr
               and rs = "[CreateProject 7 (Some (JObj []))]", OF refl h1 h2 h3]
    by (simp add: h4)
qed

text \<open>
  C4. In a state reached from the empty store by a sequence with \<open>N - 1\<close> creations, a
  creation (the \<open>N\<close>th) appends one project to the project sequence and binds its id to
  the empty message sequence; without a name field its name is \<open>Project N\<close>, and
  \<open>Project 1\<close> when no project exists. The id is the text of the value \<^verbatim>\<open>uuid4()\<close>
  drew, taken without any check against the existing ids: it differs from the id of every
  existing project exactly when that value was not drawn for an earlier creation.
\<close>
theorem create_project_default_name_and_id:
  assumes reach: "st = run repr init_store rs"
  shows "fst (create_project u st (Some (JObj d))) =
           Inr (JObj [(asc ''id'', JStr (uuid_str u)),
                      (asc ''name'', dict_get d (asc ''name'')
                         (JStr (asc ''Project '' @ py_str_nat (creations rs + 1))))]) \<and>
         projects (snd (create_project u st (Some (JObj d)))) =
           projects st @ [\<lparr>proj_id = uuid_str u,
                            proj_name = dict_get d (asc ''name'')
                              (JStr (asc ''Project '' @ py_str_nat (creations rs + 1)))\<rparr>] \<and>
         project_messages (snd (create_project u st (Some (JObj d)))) =
           (project_messages st)(uuid_str u \<mapsto> []) \<and>
         ((uuid_str u \<notin> proj_id ` set (projects st)) = (u \<notin> set (draws rs))) \<and>
         (map_of d (asc ''name'') = None \<longrightarrow>
            proj_name (last (projects (snd (create_project u st (Some (JObj d)))))) =
              JStr (asc ''Project '' @ py_str_nat (creations rs + 1))) \<and>
         (map_of d (asc ''name'') = None \<and> projects st = [] \<longrightarrow>
            proj_name (last (projects (snd (create_project u st (Some (JObj d)))))) =
              JStr (asc ''Project 1''))"
proof -
  have len: "length (projects st) = creations rs"
    by (simp add: reach run_init_length)
  have ids: "proj_id ` set (projects st) = uuid_str ` set (draws rs)"
    using arg_cong [OF run_init_ids [of repr rs], of set] by (simp add: reach)
  have new: "(uuid_str u \<notin> proj_id ` set (projects st)) = (u \<notin> set (draws rs))"
    by (auto simp: ids dest: uuid_str_inj)
  have one: "py_str_nat (Suc 0) = asc ''1''"
    by (simp add: py_str_nat.simps asc_def)
  have zero: "creations rs = 0" if "projects st = []"
    using len that by simp
  have rest: "fst (create_project u st (Some (JObj d))) =
           Inr (JObj [(asc ''id'', JStr (uuid_str u)),
                      (asc ''name'', dict_get d (asc ''name'')
                         (JStr (asc ''Project '' @ py_str_nat (creations rs + 1))))]) \<and>
         projects (snd (create_project u st (Some (JObj d)))) =
           projects st @ [\<lparr>proj_id = uuid_str u,
                            proj_name = dict_get d (asc ''name'')
                              (JStr (asc ''Project '' @ py_str_nat (creations rs + 1)))\<rparr>] \<and>
         project_messages (snd (create_project u st (Some (JObj d)))) =
           (project_messages st)(uuid_str u \<mapsto> []) \<and>
         (map_of d (asc ''name'') = None \<longrightarrow>
            proj_name (last (projects (snd (create_project u st (Some (JObj d)))))) =
              JStr (asc ''Project '' @ py_str_nat (creations rs + 1))) \<and>
         (map_of d (asc ''name'') = None \<and> projects st = [] \<longrightarrow>
            proj_name (last (projects (snd (create_project u st (Some (JObj d)))))) =
              JStr (asc ''Project 1''))"
    by (auto simp: create_project_def Let_def len project_json_def dict_get_def one
          asc_def dest: zero)
  from rest new show ?thesis by blast
qed

theorem create_project_default_name_and_id_witness:
  "projects (snd (create_project 2 (run no_repr init_store [CreateProject 1 (Some (JObj []))])
                    (Some (JObj [])))) =
     [\<lparr>proj_id = uuid_str 1, proj_name = JStr (asc ''Project 1'')\<rparr>,
      \<lparr>proj_id = uuid_str 2, proj_name = JStr (asc ''Project 2'')\<rparr>] \<and>
   uuid_str 2 \<notin> proj_id ` set (projects (run no_repr init_store [CreateProject 1 (Some (JObj []))])) \<and>
   proj_name (last (projects (snd (create_project 1 (run no_repr init_store []) (Some (JObj []))))))
     = JStr (asc ''Project 1'')"
proof -
  have f2: "(2 :: 128 word) \<notin> set (draws [CreateProject 1 (Some (JObj []))])"
    by simp
  have n1: "py_str_nat (Suc 0) = asc ''1''" and n2: "py_str_nat (Suc (Suc 0)) = asc ''2''"
    by (simp_all add: py_str_nat.simps asc_def)
  have st1: "projects (run no_repr init_store [CreateProject 1 (Some (JObj []))]) =
               [\<lparr>proj_id = uuid_str 1, proj_name = JStr (asc ''Project 1'')\<rparr>]"
    by (simp add: create_project_def Let_def init_store_def dict_get_def n1 asc_def)
  have e: "map_of ([] :: (pystr \<times> json) list) (asc ''name'') = None \<and>
           projects (run no_repr init_store []) = []"
    by (simp add: init_store_def)
  show ?thesis
    using create_project_default_name_and_id
            [where repr = no_repr and rs = "[CreateProject 1 (Some (JObj []))]" and u = 2
               and d = "[]", OF refl]
          create_project_default_name_and_id
            [where repr = no_repr and rs = "[]" and u = 1 and d = "[]", OF refl]
          f2 e
    by (simp add: st1 creations_def dict_get_def n1 n2 asc_def)
qed

text \<open>
  C4, as stated, fails where it says that every creation generates an id distinct from all
  existing ones: when \<^verbatim>\<open>uuid4()\<close> draws a value again, the second project gets the id
  of the first.
\<close>
theorem create_project_repeated_draw_reuses_id:
  "uuid_str 5 \<in> proj_id ` set (projects (run no_repr init_store [CreateProject 5 (Some (JObj []))])) \<and>
   projects (snd (create_project 5 (run no_repr init_store [CreateProject 5 (Some (JObj []))])
                    (Some (JObj [])))) =
     [\<lparr>proj_id = uuid_str 5, proj_name = JStr (asc ''Project 1'')\<rparr>,
      \<lparr>proj_id = uuid_str 5, proj_name = JStr (asc ''Project 2'')\<rparr>]"
proof -
  have n1: "py_str_nat (Suc 0) = asc ''1''" and n2: "py_str_nat (Suc (Suc 0)) = asc ''2''"
    by (simp_all add: py_str_nat.simps asc_def)
  show ?thesis
    by (simp add: create_project_def Let_def init_store_def dict_get_def n1 n2 asc_def)
qed

text \<open>
  C10. The numbered default name is used only when the body has no name key: when the key
  is present and bound to null, the name of the created project is null, not the default.
\<close>

theorem create_project_null_name:
  assumes "map_of d (asc ''name'') = Some JNull"
  shows "fst (create_project u st (Some (JObj d))) =
           Inr (JObj [(asc ''id'', JStr (uuid_str u)), (asc ''name'', JNull)]) \<and>
         projects (snd (create_project u st (Some (JObj d)))) =
           projects st @ [\<lparr>proj_id = uuid_str u, proj_name = JNull\<rparr>] \<and>
         proj_name (last (projects (snd (create_project u st (Some (JObj d)))))) \<noteq>
           JStr (asc ''Project '' @ py_str_nat (length (projects st) + 1))"
  using assms by (simp add: create_project_def Let_def dict_get_def project_json_def)

theorem create_project_null_name_witness:
  "fst (create_project 3 init_store (Some (JObj [(asc ''name'', JNull)]))) =
     Inr (JObj [(asc ''id'', JStr (uuid_str 3)), (asc ''name'', JNull)]) \<and>
   projects (snd (create_project 3 init_store (Some (JObj [(asc ''name'', JNull)])))) =
     [\<lparr>proj_id = uuid_str 3, proj_name = JNull\<rparr>]"
proof -
  have h: "map_of [(asc ''name'', JNull)] (asc ''name'') = Some JNull"
    by simp
  show ?thesis
    using create_project_null_name [where u = 3 and st = init_store, OF h]
    by (simp add: init_store_def)
qed

text \<open>
  C6. When the project id is absent from the body of a request to the format operation, or
  is a string that is no key of the message mapping, the store is left as it was, and, the
  gateway having returned text, the handler answers with that text: the append is dropped
  silently.
\<close>
theorem format_unknown_project_keeps_store:
  assumes unknown: "map_of d (asc ''project_id'') = None \<or>
                    (\<exists>s. map_of d (asc ''project_id'') = Some (JStr s) \<and>
                         project_messages st s = None)"
  shows "snd (format_update repr gw st (Some (JObj d))) = st \<and>
         (gw (asc ''gpt-4'') (asc ''You are a helpful project assistant.'')
             (format_prompt (py_str repr (dict_get d (asc ''update'') JNull))) = Inr formatted \<longrightarrow>
          format_update repr gw st (Some (JObj d)) =
            (Inr (JObj [(asc ''formatted'', JStr formatted)]), st))"
proof -
  from unknown consider
      (absent) "dict_get d (asc ''project_id'') JNull = JNull"
    | (string) s where "dict_get d (asc ''project_id'') JNull = JStr s"
        and "project_messages st s = None"
    by (auto simp: dict_get_def)
  then show ?thesis
  proof cases
    case absent
    then show ?thesis
      by (simp add: format_update_def Let_def split: sum.splits)
  next
    case string
    then show ?thesis
      by (simp add: format_update_def Let_def split: sum.splits)
  qed
qed

theorem format_unknown_project_keeps_store_witness:
  "format_update no_repr (const_gateway (asc ''ok'')) init_store
     (Some (JObj [(asc ''update'', JStr (asc ''x'')), (asc ''project_id'', JStr (asc ''nope''))])) =
     (Inr (JObj [(asc ''formatted'', JStr (asc ''ok''))]), init_store) \<and>
   format_update no_repr (const_gateway (asc ''ok'')) init_store
     (Some (JObj [(asc ''update'', JStr (asc ''x''))])) =
     (Inr (JObj [(asc ''formatted'', JStr (asc ''ok''))]), init_store)"
proof -
  have h1: "map_of [(asc ''update'', JStr (asc ''x'')), (asc ''project_id'', JStr (asc ''nope''))]
              (asc ''project_id'') = None \<or>
            (\<exists>s. map_of [(asc ''update'', JStr (asc ''x'')), (asc ''project_id'', JStr (asc ''nope''))]
                    (asc ''project_id'') = Some (JStr s) \<and>
                 project_messages init_store s = None)"
    by (simp add: init_store_def asc_def)
  have h2: "map_of [(asc ''update'', JStr (asc ''x''))] (asc ''project_id'') = None \<or>
            (\<exists>s. map_of [(asc ''update'', JStr (asc ''x''))] (asc ''project_id'') = Some (JStr s) \<and>
                 project_messages init_store s = None)"
    by (simp add: asc_def)
  show ?thesis
    using format_unknown_project_keeps_store
            [where repr = no_repr and gw = "const_gateway (asc ''ok'')" and formatted = "asc ''ok''",
             OF h1]
          format_unknown_project_keeps_store
            [where repr = no_repr and gw = "const_gateway (asc ''ok'')" and formatted = "asc ''ok''",
             OF h2]
    by (simp add: const_gateway_def)
qed

text \<open>
  The guard of the format handler tests membership before anything else about the project
  id, so an id that is a non-empty list, which has no hash, makes the handler fail after
  the gateway has answered; the store is left as it was.
\<close>
lemma format_unhashable_project_id_raises:
  "format_update no_repr (const_gateway (asc ''ok'')) init_store
     (Some (JObj [(asc ''update'', JStr (asc ''x'')), (asc ''project_id'', JArr [JInt 1])])) =
   (Inl TypeError, init_store)"
  by (simp add: format_update_def Let_def dict_get_def const_gateway_def asc_def)

text \<open>
  C9. For a provider that answers every call with the same text, action items and
  sentiment answer with that text stripped of leading and trailing whitespace, while
  summarize, generate email and (whenever it answers) format answer with the text
  unchanged; and stripping does change a text with surrounding blanks.
\<close>

theorem strip_only_in_action_items_and_sentiment:
  assumes answer: "\<forall>s p. gw (asc ''gpt-4'') s p = Inr t"
  shows "fst (extract_action_items repr gw st (Some (JObj d))) =
           Inr (JObj [(asc ''action_items'', JStr (py_strip t))]) \<and>
         fst (analyze_sentiment repr gw st (Some (JObj d))) =
           Inr (JObj [(asc ''sentiment'', JStr (py_strip t))]) \<and>
         fst (summarize_project repr gw st (Some (JObj d))) =
           Inr (JObj [(asc ''summary'', JStr t)]) \<and>
         fst (generate_email repr gw st (Some (JObj d))) =
           Inr (JObj [(asc ''email'', JStr t)]) \<and>
         (\<forall>r. fst (format_update repr gw st (Some (JObj d))) = Inr r \<longrightarrow>
              r = JObj [(asc ''formatted'', JStr t)]) \<and>
         py_strip (asc '' done '') \<noteq> asc '' done ''"
proof -
  have s: "py_strip (asc '' done '') \<noteq> asc '' done ''"
    by (simp add: py_strip_def py_isspace_def asc_def)
  have f: "\<forall>r. fst (format_update repr gw st (Some (JObj d))) = Inr r \<longrightarrow>
              r = JObj [(asc ''formatted'', JStr t)]"
    using answer by (auto simp: format_update_def Let_def split: sum.splits if_splits)
  show ?thesis
    using answer s f
    by (simp add: extract_action_items_def analyze_sentiment_def summarize_project_def
          generate_email_def Let_def)
qed

theorem strip_only_in_action_items_and_sentiment_witness:
  "fst (analyze_sentiment no_repr (const_gateway (asc '' done '')) init_store (Some (JObj []))) =
     Inr (JObj [(asc ''sentiment'', JStr (asc ''done''))]) \<and>
   fst (format_update no_repr (const_gateway (asc '' done '')) init_store (Some (JObj []))) =
     Inr (JObj [(asc ''formatted'', JStr (asc '' done ''))])"
proof -
  have h: "\<forall>s p. const_gateway (asc '' done '') (asc ''gpt-4'') s p = Inr (asc '' done '')"
    by (simp add: const_gateway_def)
  have st: "py_strip (asc '' done '') = asc ''done''"
    by (simp add: py_strip_def py_isspace_def asc_def)
  have fm: "fst (format_update no_repr (const_gateway (asc '' done '')) init_store (Some (JObj []))) =
              Inr (JObj [(asc ''formatted'', JStr (asc '' done ''))])"
    by (simp add: format_update_def Let_def dict_get_def const_gateway_def)
  show ?thesis
    using strip_only_in_action_items_and_sentiment
            [where gw = "const_gateway (asc '' done '')" and repr = no_repr and st = init_store
               and d = "[]", OF h] fm
    by (simp add: st)
qed

text \<open>
  C3. For every request to a text-generation operation (format, summarize, action items,
  sentiment, generate email), field by field: when the update field is absent, the prompt
  sent to the gateway has the text \<open>None\<close> in the place of the update; when the
  project_name field is absent, it has the empty string in the place of the project name;
  when the sentiment field is absent, it has the empty string in the place of the
  sentiment. The other slots hold the text of the fields present, and no numbered default
  appears. The answer of the handler is determined by what the gateway answers to exactly
  that prompt.
\<close>
theorem absent_slots_in_prompts:
  "(map_of d (asc ''update'') = None \<longrightarrow>
      format_update repr gw st (Some (JObj d)) =
        (case gw (asc ''gpt-4'') (asc ''You are a helpful project assistant.'')
                (format_prompt (asc ''None'')) of
           Inl e \<Rightarrow> (Inl e, st)
         | Inr t \<Rightarrow> format_update repr (const_gateway t) st (Some (JObj d))) \<and>
      summarize_project repr gw st (Some (JObj d)) =
        (case gw (asc ''gpt-4'') (asc ''You are a senior project manager assistant.'')
                (summary_prompt (asc ''None'')) of
           Inl e \<Rightarrow> (Inl e, st)
         | Inr t \<Rightarrow> (Inr (JObj [(asc ''summary'', JStr t)]), st)) \<and>
      extract_action_items repr gw st (Some (JObj d)) =
        (case gw (asc ''gpt-4'')
                (asc ''You are a project management AI that extracts action items as a concise numbered markdown list with bolded titles.'')
                (action_items_prompt
                   (py_str repr (dict_get d (asc ''project_name'') (JStr [])))
                   (asc ''None'')) of
           Inl e \<Rightarrow> (Inl e, st)
         | Inr t \<Rightarrow> (Inr (JObj [(asc ''action_items'', JStr (py_strip t))]), st)) \<and>
      analyze_sentiment repr gw st (Some (JObj d)) =
        (case gw (asc ''gpt-4'') (asc ''You are a sentiment analysis AI.'')
                (sentiment_prompt
                   (py_str repr (dict_get d (asc ''project_name'') (JStr [])))
                   (asc ''None'')) of
           Inl e \<Rightarrow> (Inl e, st)
         | Inr t \<Rightarrow> (Inr (JObj [(asc ''sentiment'', JStr (py_strip t))]), st)) \<and>
      generate_email repr gw st (Some (JObj d)) =
        (case gw (asc ''gpt-4'') (asc ''You are an expert project manager and email writer.'')
                (email_prompt
                   (py_str repr (dict_get d (asc ''sentiment'') (JStr [])))
                   (py_str repr (dict_get d (asc ''project_name'') (JStr [])))
                   (asc ''None'')) of
           Inl e \<Rightarrow> (Inl e, st)
         | Inr t \<Rightarrow> (Inr (JObj [(asc ''email'', JStr t)]), st))) \<and>
   (map_of d (asc ''project_name'') = None \<longrightarrow>
      extract_action_items repr gw st (Some (JObj d)) =
        (case gw (asc ''gpt-4'')
                (asc ''You are a project management AI that extracts action items as a concise numbered markdown list with bolded titles.'')
                (action_items_prompt [] (py_str repr (dict_get d (asc ''update'') JNull))) of
           Inl e \<Rightarrow> (Inl e, st)
         | Inr t \<Rightarrow> (Inr (JObj [(asc ''action_items'', JStr (py_strip t))]), st)) \<and>
      analyze_sentiment repr gw st (Some (JObj d)) =
        (case gw (asc ''gpt-4'') (asc ''You are a sentiment analysis AI.'')
                (sentiment_prompt [] (py_str repr (dict_get d (asc ''update'') JNull))) of
           Inl e \<Rightarrow> (Inl e, st)
         | Inr t \<Rightarrow> (Inr (JObj [(asc ''sentiment'', JStr (py_strip t))]), st)) \<and>
      generate_email repr gw st (Some (JObj d)) =
        (case gw (asc ''gpt-4'') (asc ''You are an expert project manager and email writer.'')
                (email_prompt
                   (py_str repr (dict_get d (asc ''sentiment'') (JStr [])))
                   []
                   (py_str repr (dict_get d (asc ''update'') JNull))) of
           Inl e \<Rightarrow> (Inl e, st)
         | Inr t \<Rightarrow> (Inr (JObj [(asc ''email'', JStr t)]), st))) \<and>
   (map_of d (asc ''sentiment'') = None \<longrightarrow>
      generate_email repr gw st (Some (JObj d)) =
        (case gw (asc ''gpt-4'') (asc ''You are an expert project manager and email writer.'')
                (email_prompt
                   []
                   (py_str repr (dict_get d (asc ''project_name'') (JStr [])))
                   (py_str repr (dict_get d (asc ''update'') JNull))) of
           Inl e \<Rightarrow> (Inl e, st)
         | Inr t \<Rightarrow> (Inr (JObj [(asc ''email'', JStr t)]), st)))"
proof (intro conjI impI)
  assume u: "map_of d (asc ''update'') = None"
  then have gu: "dict_get d (asc ''update'') JNull = JNull"
    by (simp add: dict_get_def)
  show "format_update repr gw st (Some (JObj d)) =
        (case gw (asc ''gpt-4'') (asc ''You are a helpful project assistant.'')
                (format_prompt (asc ''None'')) of
           Inl e \<Rightarrow> (Inl e, st)
         | Inr t \<Rightarrow> format_update repr (const_gateway t) st (Some (JObj d)))"
    by (simp add: format_update_def Let_def gu const_gateway_def split: sum.splits)
  show "summarize_project repr gw st (Some (JObj d)) =
        (case gw (asc ''gpt-4'') (asc ''You are a senior project manager assistant.'')
                (summary_prompt (asc ''None'')) of
           Inl e \<Rightarrow> (Inl e, st)
         | Inr t \<Rightarrow> (Inr (JObj [(asc ''summary'', JStr t)]), st))"
    by (simp add: summarize_project_def Let_def gu)
  show "extract_action_items repr gw st (Some (JObj d)) =
        (case gw (asc ''gpt-4'')
                (asc ''You are a project management AI that extracts action items as a concise numbered markdown list with bolded titles.'')
                (action_items_prompt
                   (py_str repr (dict_get d (asc ''project_name'') (JStr [])))
                   (asc ''None'')) of
           Inl e \<Rightarrow> (Inl e, st)
         | Inr t \<Rightarrow> (Inr (JObj [(asc ''action_items'', JStr (py_strip t))]), st))"
    by (simp add: extract_action_items_def Let_def gu split: sum.splits)
  show "analyze_sentiment repr gw st (Some (JObj d)) =
        (case gw (asc ''gpt-4'') (asc ''You are a sentiment analysis AI.'')
                (sentiment_prompt
                   (py_str repr (dict_get d (asc ''project_name'') (JStr [])))
                   (asc ''None'')) of
           Inl e \<Rightarrow> (Inl e, st)
         | Inr t \<Rightarrow> (Inr (JObj [(asc ''sentiment'', JStr (py_strip t))]), st))"
    by (simp add: analyze_sentiment_def Let_def gu split: sum.splits)
  show "generate_email repr gw st (Some (JObj d)) =
        (case gw (asc ''gpt-4'') (asc ''You are an expert project manager and email writer.'')
                (email_prompt
                   (py_str repr (dict_get d (asc ''sentiment'') (JStr [])))
                   (py_str repr (dict_get d (asc ''project_name'') (JStr [])))
                   (asc ''None'')) of
           Inl e \<Rightarrow> (Inl e, st)
         | Inr t \<Rightarrow> (Inr (JObj [(asc ''email'', JStr t)]), st))"
    by (simp add: generate_email_def Let_def gu)
next
  assume n: "map_of d (asc ''project_name'') = None"
  then have gn: "dict_get d (asc ''project_name'') (JStr []) = JStr []"
    by (simp add: dict_get_def)
  show "extract_action_items repr gw st (Some (JObj d)) =
        (case gw (asc ''gpt-4'')
                (asc ''You are a project management AI that extracts action items as a concise numbered markdown list with bolded titles.'')
                (action_items_prompt [] (py_str repr (dict_get d (asc ''update'') JNull))) of
           Inl e \<Rightarrow> (Inl e, st)
         | Inr t \<Rightarrow> (Inr (JObj [(asc ''action_items'', JStr (py_strip t))]), st))"
    by (simp add: extract_action_items_def Let_def gn split: sum.splits)
  show "analyze_sentiment repr gw st (Some (JObj d)) =
        (case gw (asc ''gpt-4'') (asc ''You are a sentiment analysis AI.'')
                (sentiment_prompt [] (py_str repr (dict_get d (asc ''update'') JNull))) of
           Inl e \<Rightarrow> (Inl e, st)
         | Inr t \<Rightarrow> (Inr (JObj [(asc ''sentiment'', JStr (py_strip t))]), st))"
    by (simp add: analyze_sentiment_def Let_def gn split: sum.splits)
  show "generate_email repr gw st (Some (JObj d)) =
        (case gw (asc ''gpt-4'') (asc ''You are an expert project manager and email writer.'')
                (email_prompt
                   (py_str repr (dict_get d (asc ''sentiment'') (JStr [])))
                   []
                   (py_str repr (dict_get d (asc ''update'') JNull))) of
           Inl e \<Rightarrow> (Inl e, st)
         | Inr t \<Rightarrow> (Inr (JObj [(asc ''email'', JStr t)]), st))"
    by (simp add: generate_email_def Let_def gn)
next
  assume s: "map_of d (asc ''sentiment'') = None"
  then have gs: "dict_get d (asc ''sentiment'') (JStr []) = JStr []"
    by (simp add: dict_get_def)
  show "generate_email repr gw st (Some (JObj d)) =
        (case gw (asc ''gpt-4'') (asc ''You are an expert project manager and email writer.'')
                (email_prompt
                   []
                   (py_str repr (dict_get d (asc ''project_name'') (JStr [])))
                   (py_str repr (dict_get d (asc ''update'') JNull))) of
           Inl e \<Rightarrow> (Inl e, st)
         | Inr t \<Rightarrow> (Inr (JObj [(asc ''email'', JStr t)]), st))"
    by (simp add: generate_email_def Let_def gs)
qed

theorem absent_slots_in_prompts_witness:
  "summarize_project no_repr echo_gateway init_store
     (Some (JObj [(asc ''project_name'', JStr (asc ''A''))])) =
     (Inr (JObj [(asc ''summary'', JStr (summary_prompt (asc ''None'')))]), init_store) \<and>
   generate_email no_repr echo_gateway init_store (Some (JObj [])) =
     (Inr (JObj [(asc ''email'', JStr (email_prompt [] [] (asc ''None'')))]), init_store) \<and>
   generate_email no_repr echo_gateway init_store
     (Some (JObj [(asc ''project_name'', JStr (asc ''A''))])) =
     (Inr (JObj [(asc ''email'', JStr (email_prompt [] (asc ''A'') (asc ''None'')))]), init_store)"
proof -
  have a: "map_of [(asc ''project_name'', JStr (asc ''A''))] (asc ''update'') = None"
    by (simp add: asc_def)
  have e: "map_of ([] :: (pystr \<times> json) list) (asc ''update'') = None"
    "map_of ([] :: (pystr \<times> json) list) (asc ''project_name'') = None"
    "map_of ([] :: (pystr \<times> json) list) (asc ''sentiment'') = None"
    by simp_all
  have g: "dict_get [(asc ''project_name'', JStr (asc ''A''))] (asc ''sentiment'') (JStr []) = JStr []"
    "dict_get [(asc ''project_name'', JStr (asc ''A''))] (asc ''project_name'') (JStr []) =
       JStr (asc ''A'')"
    by (simp_all add: dict_get_def asc_def)
  show ?thesis
    using absent_slots_in_prompts
            [where repr = no_repr and gw = echo_gateway and st = init_store
               and d = "[(asc ''project_name'', JStr (asc ''A''))]"]
          absent_slots_in_prompts
            [where repr = no_repr and gw = echo_gateway and st = init_store and d = "[]"]
          a e
    by (simp add: echo_gateway_def g dict_get_def asc_def)
qed

text \<open>
  C3, as stated, fails for the update field: with an empty body, the prompt the format
  handler sends (echoed back by the gateway) holds \<open>None\<close> where the update goes, and
  differs from the prompt with the empty string there.
\<close>

theorem absent_update_is_None_not_empty:
  "fst (format_update no_repr echo_gateway init_store (Some (JObj []))) =
     Inr (JObj [(asc ''formatted'', JStr (format_prompt (asc ''None'')))]) \<and>
   format_prompt (asc ''None'') \<noteq> format_prompt []"
proof -
  have a: "fst (format_update no_repr echo_gateway init_store (Some (JObj []))) =
             Inr (JObj [(asc ''formatted'', JStr (format_prompt (asc ''None'')))])"
    by (simp add: format_update_def Let_def dict_get_def echo_gateway_def)
  have "asc ''None'' \<noteq> []"
    by (simp add: asc_def)
  then have b: "format_prompt (asc ''None'') \<noteq> format_prompt []"
    by (simp add: format_prompt_def)
  from a b show ?thesis ..
qed

end
